theory Spec2Isabelle
  imports Main "HOL-Library.Sublist"
begin

section \<open>JavaScript values\<close>

text \<open>
  The client (src/client/client.js) treats the game state \<open>G\<close>, the arguments of a move,
  the entries of the log, the bot's metadata and \<open>ctx.gameover\<close> as opaque values: it stores
  them, passes them on and, for \<open>gameover\<close>, compares with \<open>undefined\<close>.
\<close>

datatype jsval =
    JUndefined
  | JNull
  | JBool bool
  | JNum int
  | JStr string
  | JArr "jsval list"
  | JObj "(string \<times> jsval) list"

text \<open>
  A slot whose value the code tests against \<open>undefined\<close> and \<open>null\<close>, or for truthiness,
  before it uses it: a player id, the credentials, a log carried by an action.
\<close>

datatype 'a js = Undefined | Null | Val 'a

text \<open>The only failure the client itself can raise: reading a property of, calling, or
  spreading \<open>undefined\<close> or \<open>null\<close>.\<close>

datatype error = TypeError

text \<open>\<open>x || []\<close> for a slot holding an array: an array is truthy, also the empty one.\<close>

fun or_empty :: "'a list js \<Rightarrow> 'a list" where
  "or_empty (Val xs) = xs"
| "or_empty Undefined = []"
| "or_empty Null = []"

text \<open>\<open>[...x]\<close>: spreading \<open>undefined\<close> or \<open>null\<close> into an array literal throws.\<close>

fun spread :: "'a list js \<Rightarrow> error + 'a list" where
  "spread (Val xs) = Inr xs"
| "spread Undefined = Inl TypeError"
| "spread Null = Inl TypeError"


section \<open>The multiplayer option\<close>

text \<open>
  The \<open>multiplayer\<close> option is absent, a boolean, or an object, given here by its own
  keys. \<open>truthy\<close> is the test of \<open>if (multiplayer)\<close> and \<open>!multiplayer\<close>.
\<close>

datatype mp = MBool bool | MObject "(string \<times> jsval) list"

fun truthy :: "mp js \<Rightarrow> bool" where
  "truthy Undefined = False"
| "truthy Null = False"
| "truthy (Val (MBool b)) = b"
| "truthy (Val (MObject kvs)) = True"

section \<open>Actions\<close>

text \<open>
  Modelled from the spec: the constants of core/action-types (\<open>Actions.MAKE_MOVE\<close>, ...)
  are not under src/. Section 6 of the specification lists the recognised kinds
  make-move, game-event, reset, undo, redo, update and sync; every other \<open>type\<close> an action
  may carry is \<open>OTHER\<close>.
\<close>

datatype action_type =
  MAKE_MOVE | GAME_EVENT | RESET | UNDO | REDO | UPDATE | SYNC | OTHER string

record payload =
  payload_type :: string
  args :: "jsval list"
  payload_playerID :: "string js"
  payload_credentials :: "string js"
  metadata :: jsval

record action =
  action_type :: action_type
  action_payload :: "payload js"
  action_deltalog :: "jsval list js"
  action_log :: "jsval list js"

section \<open>The store\<close>

record ctx =
  currentPlayer :: "string js"
  actionPlayers :: "string js list"
  gameover :: jsval

record state =
  G :: jsval
  ctx :: ctx
  state_log :: "jsval list js"
  deltalog :: "jsval list js"

text \<open>
  The store that \<open>createStore(this.reducer, enhancer)\<close> or the transport's
  \<open>createStore\<close> builds (Redux and the transport are not under src/): its current state,
  and what its own \<open>dispatch\<close>, the \<open>next\<close> of the log middleware, makes of the state for an
  action. For a plain local store that is the reducer.
\<close>

record store =
  current :: state
  inner_dispatch :: "action \<Rightarrow> state \<Rightarrow> state"

definition store_getState :: "store \<Rightarrow> state" where
  "store_getState s = current s"

section \<open>The game, the bot and the transport\<close>

record flow =
  eventNames :: "string list"
  canPlayerMakeMove :: "jsval \<Rightarrow> ctx \<Rightarrow> string js \<Rightarrow> bool"

record game =
  name :: string
  moveNames :: "string list"
  flow :: flow
  playerView :: "jsval \<Rightarrow> ctx \<Rightarrow> string js \<Rightarrow> jsval"

text \<open>\<open>bot.play(state, playerID)\<close> returns \<open>{ action, metadata }\<close>.\<close>

type_synonym play = "state \<Rightarrow> string js \<Rightarrow> action js \<times> jsval"

type_synonym enumerate = "jsval \<Rightarrow> ctx \<Rightarrow> string js \<Rightarrow> action list"

record ai =
  ai_bot :: "game \<Rightarrow> enumerate \<Rightarrow> play"
  ai_enumerate :: enumerate

text \<open>
  Modelled from the spec: the transport component (client/multiplayer/multiplayer.js is
  not under src/). The specification treats it as an opaque object constructed with
  \<open>{gameID, playerID, gameName, numPlayers, server, socketOpts}\<close> that exposes
  \<open>isConnected\<close>, \<open>updatePlayerID(id)\<close> and \<open>updateGameID(id)\<close>. What the two methods do
  inside is unknown, so the object keeps the calls it received, in order.
\<close>

datatype transport_call = UpdatePlayerID "string js" | UpdateGameID "string js"

record transport =
  transport_gameID :: "string js"
  transport_playerID :: "string js"
  transport_gameName :: string
  transport_numPlayers :: jsval
  transport_server :: jsval
  transport_socketOpts :: jsval
  transport_isConnected :: bool
  transport_calls :: "transport_call list"

definition transport_updatePlayerID :: "string js \<Rightarrow> transport \<Rightarrow> transport" where
  "transport_updatePlayerID pid t = t\<lparr>transport_calls := transport_calls t @ [UpdatePlayerID pid]\<rparr>"

definition transport_updateGameID :: "string js \<Rightarrow> transport \<Rightarrow> transport" where
  "transport_updateGameID gid t = t\<lparr>transport_calls := transport_calls t @ [UpdateGameID gid]\<rparr>"

section \<open>Dispatchers\<close>

text \<open>
  \<open>createDispatchers\<close> returns an object with one closure per name. A closure is the
  values it captured: the kind of action creator, its name, and the \<open>playerID\<close>,
  \<open>credentials\<close> and \<open>multiplayer\<close> of the call that built it. The store it captured is the
  client's one store, which is read from the client when the closure runs. The object is
  the map from the names \<open>reduce\<close> assigned to their closures; names are taken to be
  ordinary property keys (the key \<open>__proto__\<close>, which an assignment treats as the prototype
  of the object, is not told apart), and what the object inherits from its prototype is
  not a dispatcher and is not part of the map.
\<close>

datatype storeActionType = makeMove | gameEvent

record dispatcher =
  dispatcher_storeActionType :: storeActionType
  dispatcher_name :: string
  dispatcher_playerID :: "string js"
  dispatcher_credentials :: "string js"
  dispatcher_multiplayer :: "mp js"

definition createDispatchers ::
  "storeActionType \<Rightarrow> string list \<Rightarrow> string js \<Rightarrow> string js \<Rightarrow> mp js \<Rightarrow> (string \<rightharpoonup> dispatcher)" where
  "createDispatchers kind innerActionNames pid cred multi =
     foldl (\<lambda>dispatchers nm.
              dispatchers(nm \<mapsto>
                \<lparr>dispatcher_storeActionType = kind, dispatcher_name = nm,
                 dispatcher_playerID = pid, dispatcher_credentials = cred,
                 dispatcher_multiplayer = multi\<rparr>))
           Map.empty innerActionNames"

definition createEventDispatchers ::
  "string list \<Rightarrow> string js \<Rightarrow> string js \<Rightarrow> mp js \<Rightarrow> (string \<rightharpoonup> dispatcher)" where
  "createEventDispatchers = createDispatchers gameEvent"

definition createMoveDispatchers ::
  "string list \<Rightarrow> string js \<Rightarrow> string js \<Rightarrow> mp js \<Rightarrow> (string \<rightharpoonup> dispatcher)" where
  "createMoveDispatchers = createDispatchers makeMove"

text \<open>
  Modelled from the spec: the action creators of core/action-creators are not under
  src/. By section 4.2 of the specification a dispatcher constructs an action of the
  given kind carrying \<open>{ name, args, playerID, credentials }\<close>; \<open>reset\<close>, \<open>undo\<close> and \<open>redo\<close>
  are bare control actions.
\<close>

definition ActionCreators ::
  "storeActionType \<Rightarrow> string \<Rightarrow> jsval list \<Rightarrow> string js \<Rightarrow> string js \<Rightarrow> action" where
  "ActionCreators kind nm as pid cred =
     \<lparr>action_type = (case kind of makeMove \<Rightarrow> MAKE_MOVE | gameEvent \<Rightarrow> GAME_EVENT),
      action_payload = Val \<lparr>payload_type = nm, args = as, payload_playerID = pid,
                            payload_credentials = cred, metadata = JUndefined\<rparr>,
      action_deltalog = Undefined, action_log = Undefined\<rparr>"

definition control_action :: "action_type \<Rightarrow> action" where
  "control_action t =
     \<lparr>action_type = t, action_payload = Undefined,
      action_deltalog = Undefined, action_log = Undefined\<rparr>"

section \<open>The client\<close>

text \<open>
  The fields of \<open>_ClientImpl\<close>. \<open>step\<close> holds the bot that the \<open>step\<close> closure captured, and
  is \<open>None\<close> when the constructor did not define \<open>this.step\<close>; \<open>multiplayerClient\<close> is \<open>None\<close>
  when the constructor did not create a transport.
\<close>

record client =
  game :: game
  playerID :: "string js"
  gameID :: "string js"
  credentials :: "string js"
  multiplayer :: "mp js"
  step :: "play option"
  store :: store
  log :: "jsval list"
  multiplayerClient :: "transport option"
  moves :: "string \<rightharpoonup> dispatcher"
  events :: "string \<rightharpoonup> dispatcher"

subsection \<open>The log middleware\<close>

text \<open>
  \<open>LogMiddleware(store)(next)(action)\<close>, which is the \<open>dispatch\<close> of the client's store. It
  runs \<open>next(action)\<close> first, reads the state after it, and updates \<open>this.log\<close> by the type
  of the action. A throw leaves the client as it was at that point: the store has
  already moved, \<open>this.log\<close> has not been assigned.
\<close>

definition LogMiddleware :: "action \<Rightarrow> client \<Rightarrow> (error + unit) \<times> client" where
  "LogMiddleware a c =
     (let c1 = c\<lparr>store := (store c)\<lparr>current := inner_dispatch (store c) a (current (store c))\<rparr>\<rparr>;
          st = store_getState (store c1)
      in case action_type a of
           MAKE_MOVE \<Rightarrow>
             (case spread (deltalog st) of
                Inl e \<Rightarrow> (Inl e, c1)
              | Inr d \<Rightarrow> (Inr (), c1\<lparr>log := log c1 @ d\<rparr>))
         | GAME_EVENT \<Rightarrow>
             (case spread (deltalog st) of
                Inl e \<Rightarrow> (Inl e, c1)
              | Inr d \<Rightarrow> (Inr (), c1\<lparr>log := log c1 @ d\<rparr>))
         | RESET \<Rightarrow> (Inr (), c1\<lparr>log := []\<rparr>)
         | UPDATE \<Rightarrow> (Inr (), c1\<lparr>log := log c1 @ or_empty (action_deltalog a)\<rparr>)
         | SYNC \<Rightarrow> (Inr (), c1\<lparr>log := or_empty (action_log a)\<rparr>)
         | UNDO \<Rightarrow> (Inr (), c1)
         | REDO \<Rightarrow> (Inr (), c1)
         | OTHER t \<Rightarrow> (Inr (), c1))"

text \<open>\<open>this.store.dispatch\<close>: the store was built with the log middleware applied.\<close>

definition dispatch :: "action \<Rightarrow> client \<Rightarrow> (error + unit) \<times> client" where
  "dispatch a c = LogMiddleware a c"

text \<open>
  Dispatches in a row, each through the store's \<open>dispatch\<close>; a caller that catches a throw
  goes on with the client as the throw left it.
\<close>

fun dispatch_all :: "action list \<Rightarrow> client \<Rightarrow> client" where
  "dispatch_all [] c = c"
| "dispatch_all (a # as) c = dispatch_all as (snd (dispatch a c))"

subsection \<open>Running a dispatcher\<close>

text \<open>
  The body of the closure that \<open>createDispatchers\<close> builds, called with \<open>args\<close>. The
  state is the store's state when the closure runs.
\<close>

definition call_dispatcher :: "dispatcher \<Rightarrow> jsval list \<Rightarrow> client \<Rightarrow> (error + unit) \<times> client" where
  "call_dispatcher d as c =
     (let assumedPlayerID =
            (if \<not> truthy (dispatcher_multiplayer d) \<and>
                (dispatcher_playerID d = Null \<or> dispatcher_playerID d = Undefined)
             then currentPlayer (ctx (store_getState (store c)))
             else dispatcher_playerID d)
      in dispatch
           (ActionCreators (dispatcher_storeActionType d) (dispatcher_name d) as
              assumedPlayerID (dispatcher_credentials d))
           c)"

subsection \<open>getState\<close>

text \<open>The object \<open>getState()\<close> returns: \<open>{ ...state, isActive, G, log: this.log }\<close>, and
  \<open>isConnected\<close> when there is a transport.\<close>

record view =
  view_G :: jsval
  view_ctx :: ctx
  view_log :: "jsval list"
  view_deltalog :: "jsval list js"
  isActive :: bool
  isConnected :: "bool option"

definition getState :: "client \<Rightarrow> view" where
  "getState c =
     (let st = store_getState (store c);
          active0 = True;
          can = canPlayerMakeMove (flow (game c)) (G st) (ctx st) (playerID c);
          active1 = (if truthy (multiplayer c) \<and> \<not> can then False else active0);
          active2 = (if \<not> truthy (multiplayer c) \<and> playerID c \<noteq> Null \<and>
                        playerID c \<noteq> Undefined \<and> \<not> can
                     then False else active1);
          active3 = (if gameover (ctx st) \<noteq> JUndefined then False else active2);
          G' = playerView (game c) (G st) (ctx st) (playerID c);
          ret = \<lparr>view_G = G', view_ctx = ctx st, view_log = log c,
                 view_deltalog = deltalog st, isActive = active3, isConnected = None\<rparr>
      in case multiplayerClient c of
           None \<Rightarrow> ret
         | Some t \<Rightarrow> ret\<lparr>isConnected := Some (transport_isConnected t)\<rparr>)"

subsection \<open>step, reset, undo, redo\<close>


definition reset :: "client \<Rightarrow> (error + unit) \<times> client" where
  "reset c = dispatch (control_action RESET) c"

definition undo :: "client \<Rightarrow> (error + unit) \<times> client" where
  "undo c = dispatch (control_action UNDO) c"

definition redo :: "client \<Rightarrow> (error + unit) \<times> client" where
  "redo c = dispatch (control_action REDO) c"

subsection \<open>Rebuilding the dispatchers, and the mutators\<close>

definition client_createDispatchers :: "client \<Rightarrow> client" where
  "client_createDispatchers c =
     c\<lparr>moves := createMoveDispatchers (moveNames (game c)) (playerID c) (credentials c)
                  (multiplayer c),
       events := createEventDispatchers (eventNames (flow (game c))) (playerID c)
                   (credentials c) (multiplayer c)\<rparr>"

definition updatePlayerID :: "string js \<Rightarrow> client \<Rightarrow> client" where
  "updatePlayerID pid c =
     (let c1 = client_createDispatchers (c\<lparr>playerID := pid\<rparr>)
      in case multiplayerClient c1 of
           None \<Rightarrow> c1
         | Some t \<Rightarrow> c1\<lparr>multiplayerClient := Some (transport_updatePlayerID pid t)\<rparr>)"

definition updateGameID :: "string js \<Rightarrow> client \<Rightarrow> client" where
  "updateGameID gid c =
     (let c1 = client_createDispatchers (c\<lparr>gameID := gid\<rparr>)
      in case multiplayerClient c1 of
           None \<Rightarrow> c1
         | Some t \<Rightarrow> c1\<lparr>multiplayerClient := Some (transport_updateGameID gid t)\<rparr>)"

definition updateCredentials :: "string js \<Rightarrow> client \<Rightarrow> client" where
  "updateCredentials cred c = client_createDispatchers (c\<lparr>credentials := cred\<rparr>)"

subsection \<open>The constructor\<close>

text \<open>
  The options of \<open>Client(opts)\<close>. The \<open>enhancer\<close> option only reaches \<open>createStore\<close>, whose
  result is an argument of the constructor below.
\<close>

record opts =
  opts_game :: game
  opts_ai :: "ai js"
  opts_numPlayers :: jsval
  opts_multiplayer :: "mp js"
  opts_socketOpts :: jsval
  opts_gameID :: "string js"
  opts_playerID :: "string js"
  opts_credentials :: "string js"



section \<open>A concrete game and two clients\<close>

text \<open>
  A game with one move and one event, a single-player client with no player id on a store
  whose reducer reports each move or event in \<open>deltalog\<close>, and a multiplayer client for
  player 1 on the same store. The theorems below are instantiated at them.
\<close>

definition demo_ctx :: ctx where
  "demo_ctx = \<lparr>currentPlayer = Val ''0'', actionPlayers = [Val ''0''], gameover = JUndefined\<rparr>"

definition demo_state :: state where
  "demo_state =
     \<lparr>G = JObj [(''deck'', JNum 5)], ctx = demo_ctx, state_log = Undefined, deltalog = Undefined\<rparr>"

fun js_string :: "string js \<Rightarrow> jsval" where
  "js_string (Val s) = JStr s"
| "js_string Undefined = JUndefined"
| "js_string Null = JNull"

definition demo_reducer :: "action \<Rightarrow> state \<Rightarrow> state" where
  "demo_reducer a st =
     (case action_payload a of
        Val p \<Rightarrow>
          (if action_type a = MAKE_MOVE \<or> action_type a = GAME_EVENT
           then st\<lparr>ctx := (ctx st)\<lparr>currentPlayer := Val ''1'', actionPlayers := [Val ''1'']\<rparr>,
                   deltalog := Val [JArr [JStr (payload_type p), js_string (payload_playerID p)]]\<rparr>
           else st)
      | Undefined \<Rightarrow> st
      | Null \<Rightarrow> st)"

definition demo_game :: game where
  "demo_game =
     \<lparr>name = ''demo'', moveNames = [''draw''],
      flow = \<lparr>eventNames = [''endTurn''],
              canPlayerMakeMove = (\<lambda>g c p. p \<in> set (actionPlayers c))\<rparr>,
      playerView = (\<lambda>g c p. if p = Val ''0'' then g else JNull)\<rparr>"

definition demo_client :: client where
  "demo_client =
     \<lparr>game = demo_game, playerID = Undefined, gameID = Val ''default'',
      credentials = Undefined, multiplayer = Undefined, step = None,
      store = \<lparr>current = demo_state, inner_dispatch = demo_reducer\<rparr>,
      log = [JStr ''setup''], multiplayerClient = None,
      moves = createMoveDispatchers [''draw''] Undefined Undefined Undefined,
      events = createEventDispatchers [''endTurn''] Undefined Undefined Undefined\<rparr>"

definition demo_transport :: transport where
  "demo_transport =
     \<lparr>transport_gameID = Val ''default'', transport_playerID = Val ''1'',
      transport_gameName = ''demo'', transport_numPlayers = JNum 2,
      transport_server = JUndefined, transport_socketOpts = JUndefined,
      transport_isConnected = True, transport_calls = []\<rparr>"

definition finished_client :: client where
  "finished_client =
     demo_client\<lparr>store := \<lparr>current = demo_state\<lparr>ctx := demo_ctx\<lparr>gameover := JStr ''draw''\<rparr>\<rparr>,
                             inner_dispatch = demo_reducer\<rparr>\<rparr>"

definition demo_remote_client :: client where
  "demo_remote_client =
     demo_client\<lparr>playerID := Val ''1'', multiplayer := Val (MBool True),
                 multiplayerClient := Some demo_transport,
                 moves := createMoveDispatchers [''draw''] (Val ''1'') Undefined (Val (MBool True)),
                 events := createEventDispatchers [''endTurn''] (Val ''1'') Undefined
                             (Val (MBool True))\<rparr>"

definition next_turn_client :: client where
  "next_turn_client =
     demo_client\<lparr>store := \<lparr>current = demo_state\<lparr>ctx := demo_ctx\<lparr>currentPlayer := Val ''1''\<rparr>\<rparr>,
                             inner_dispatch = demo_reducer\<rparr>\<rparr>"

text \<open>
  A bot that plays \<open>draw\<close> for the player it is asked about and proposes nothing when there
  is none, the options that configure it, the client the constructor builds from them on
  the store above, and the same client once no player is left to act.
\<close>

definition demo_bot :: play where
  "demo_bot st pid =
     (case pid of
        Val p \<Rightarrow> (Val (ActionCreators makeMove ''draw'' [] pid Undefined), JStr ''hint'')
      | Undefined \<Rightarrow> (Undefined, JUndefined)
      | Null \<Rightarrow> (Undefined, JUndefined))"

definition demo_ai :: ai where
  "demo_ai = \<lparr>ai_bot = (\<lambda>g e. demo_bot), ai_enumerate = (\<lambda>g c p. [])\<rparr>"

definition demo_opts :: opts where
  "demo_opts =
     \<lparr>opts_game = demo_game, opts_ai = Val demo_ai, opts_numPlayers = JNum 2,
      opts_multiplayer = Undefined, opts_socketOpts = JUndefined,
      opts_gameID = Val ''default'', opts_playerID = Null, opts_credentials = Undefined\<rparr>"

definition demo_bot_client :: client where
  "demo_bot_client = demo_client\<lparr>step := Some demo_bot, log := []\<rparr>"

definition idle_bot_client :: client where
  "idle_bot_client =
     demo_bot_client\<lparr>store := \<lparr>current = demo_state\<lparr>ctx := demo_ctx\<lparr>actionPlayers := []\<rparr>\<rparr>,
                                 inner_dispatch = demo_reducer\<rparr>\<rparr>"

lemmas demo_defs =
  demo_ctx_def demo_state_def demo_reducer_def demo_game_def demo_client_def
  demo_transport_def demo_remote_client_def finished_client_def next_turn_client_def
  demo_bot_def demo_ai_def demo_opts_def demo_bot_client_def idle_bot_client_def

section \<open>Facts about the log middleware and the dispatchers\<close>

lemma foldl_dispatchers:
  "foldl (\<lambda>dispatchers nm. dispatchers(nm \<mapsto> f nm)) m names nm =
     (if nm \<in> set names then Some (f nm) else m nm)"
  by (induction names arbitrary: m) auto

lemma createDispatchers_lookup:
  "createDispatchers kind names pid cred multi nm =
     (if nm \<in> set names
      then Some \<lparr>dispatcher_storeActionType = kind, dispatcher_name = nm,
                 dispatcher_playerID = pid, dispatcher_credentials = cred,
                 dispatcher_multiplayer = multi\<rparr>
      else None)"
  unfolding createDispatchers_def by (rule foldl_dispatchers)

lemma LogMiddleware_move_event:
  assumes "action_type a = MAKE_MOVE \<or> action_type a = GAME_EVENT"
  shows "LogMiddleware a c =
     (let c1 = c\<lparr>store := (store c)\<lparr>current := inner_dispatch (store c) a (current (store c))\<rparr>\<rparr>
      in case spread (deltalog (current (store c1))) of
           Inl e \<Rightarrow> (Inl e, c1)
         | Inr d \<Rightarrow> (Inr (), c1\<lparr>log := log c @ d\<rparr>))"
  using assms by (auto simp: LogMiddleware_def Let_def store_getState_def split: sum.splits)

lemma LogMiddleware_reset:
  "action_type a = RESET \<Longrightarrow>
   LogMiddleware a c =
     (Inr (), c\<lparr>store := (store c)\<lparr>current := inner_dispatch (store c) a (current (store c))\<rparr>,
                log := []\<rparr>)"
  by (simp add: LogMiddleware_def Let_def)

lemma LogMiddleware_update:
  "action_type a = UPDATE \<Longrightarrow>
   LogMiddleware a c =
     (Inr (), c\<lparr>store := (store c)\<lparr>current := inner_dispatch (store c) a (current (store c))\<rparr>,
                log := log c @ or_empty (action_deltalog a)\<rparr>)"
  by (simp add: LogMiddleware_def Let_def)

lemma LogMiddleware_sync:
  "action_type a = SYNC \<Longrightarrow>
   LogMiddleware a c =
     (Inr (), c\<lparr>store := (store c)\<lparr>current := inner_dispatch (store c) a (current (store c))\<rparr>,
                log := or_empty (action_log a)\<rparr>)"
  by (simp add: LogMiddleware_def Let_def)

lemma LogMiddleware_other:
  "action_type a \<notin> {MAKE_MOVE, GAME_EVENT, RESET, UPDATE, SYNC} \<Longrightarrow>
   LogMiddleware a c =
     (Inr (), c\<lparr>store := (store c)\<lparr>current := inner_dispatch (store c) a (current (store c))\<rparr>\<rparr>)"
  by (cases "action_type a") (simp_all add: LogMiddleware_def Let_def)

lemma dispatch_keeps_prefix:
  assumes "action_type a \<noteq> RESET" and "action_type a \<noteq> SYNC"
  shows "prefix (log c) (log (snd (dispatch a c)))"
proof (cases "action_type a = MAKE_MOVE \<or> action_type a = GAME_EVENT")
  case True
  then show ?thesis
    by (simp add: dispatch_def LogMiddleware_move_event Let_def split: sum.splits)
next
  case False
  show ?thesis
  proof (cases "action_type a = UPDATE")
    case True
    then show ?thesis by (simp add: dispatch_def LogMiddleware_update)
  next
    case False
    with \<open>\<not> (action_type a = MAKE_MOVE \<or> action_type a = GAME_EVENT)\<close> assms
    have "action_type a \<notin> {MAKE_MOVE, GAME_EVENT, RESET, UPDATE, SYNC}" by simp
    then show ?thesis by (simp add: dispatch_def LogMiddleware_other)
  qed
qed

lemma dispatch_all_keeps_prefix:
  assumes "\<forall>a\<in>set as. action_type a \<noteq> RESET \<and> action_type a \<noteq> SYNC"
  shows "prefix (log c) (log (dispatch_all as c))"
  using assms
proof (induction as arbitrary: c)
  case Nil
  then show ?case by simp
next
  case (Cons a as)
  have "prefix (log c) (log (snd (dispatch a c)))"
    using Cons.prems by (simp add: dispatch_keeps_prefix)
  moreover have "prefix (log (snd (dispatch a c))) (log (dispatch_all as (snd (dispatch a c))))"
    using Cons.IH Cons.prems by simp
  ultimately show ?case by (auto intro: prefix_order.trans)
qed

lemma isActive_getState:
  "isActive (getState c) =
     (let st = store_getState (store c);
          can = canPlayerMakeMove (flow (game c)) (G st) (ctx st) (playerID c)
      in gameover (ctx st) = JUndefined \<and>
         (if truthy (multiplayer c) then can
          else playerID c = Null \<or> playerID c = Undefined \<or> can))"
  by (cases "multiplayerClient c") (auto simp: getState_def Let_def)





lemma updatePlayerID_fields:
  "playerID (updatePlayerID pid c) = pid \<and>
   moves (updatePlayerID pid c) =
     createMoveDispatchers (moveNames (game c)) pid (credentials c) (multiplayer c) \<and>
   events (updatePlayerID pid c) =
     createEventDispatchers (eventNames (flow (game c))) pid (credentials c) (multiplayer c) \<and>
   multiplayerClient (updatePlayerID pid c) =
     map_option (transport_updatePlayerID pid) (multiplayerClient c)"
  by (cases "multiplayerClient c")
     (simp_all add: updatePlayerID_def client_createDispatchers_def Let_def)

lemma updateGameID_fields:
  "gameID (updateGameID gid c) = gid \<and>
   moves (updateGameID gid c) =
     createMoveDispatchers (moveNames (game c)) (playerID c) (credentials c) (multiplayer c) \<and>
   events (updateGameID gid c) =
     createEventDispatchers (eventNames (flow (game c))) (playerID c) (credentials c)
       (multiplayer c) \<and>
   multiplayerClient (updateGameID gid c) =
     map_option (transport_updateGameID gid) (multiplayerClient c)"
  by (cases "multiplayerClient c")
     (simp_all add: updateGameID_def client_createDispatchers_def Let_def)

lemma updateCredentials_fields:
  "credentials (updateCredentials cred c) = cred \<and>
   moves (updateCredentials cred c) =
     createMoveDispatchers (moveNames (game c)) (playerID c) cred (multiplayer c) \<and>
   events (updateCredentials cred c) =
     createEventDispatchers (eventNames (flow (game c))) (playerID c) cred (multiplayer c) \<and>
   multiplayerClient (updateCredentials cred c) = multiplayerClient c"
  by (simp add: updateCredentials_def client_createDispatchers_def)

section \<open>The claims\<close>

text \<open>
  C1. Dispatching a make-move or game-event action, when the state after \<open>next(action)\<close>
  has a \<open>deltalog\<close> \<open>D\<close>: the dispatch returns, the store holds that state, and the log
  mirror is the prior mirror followed by exactly the entries of \<open>D\<close>, in order.
\<close>

theorem move_or_event_appends_deltalog:
  assumes "action_type a = MAKE_MOVE \<or> action_type a = GAME_EVENT"
    and "deltalog (inner_dispatch (store c) a (current (store c))) = Val D"
  shows "fst (dispatch a c) = Inr () \<and>
         store_getState (store (snd (dispatch a c))) =
           inner_dispatch (store c) a (current (store c)) \<and>
         log (snd (dispatch a c)) = log c @ D"
  using assms by (simp add: dispatch_def LogMiddleware_move_event Let_def store_getState_def)

theorem move_or_event_appends_deltalog_witness:
  "action_type (ActionCreators makeMove ''draw'' [JNum 1] (Val ''0'') Undefined) = MAKE_MOVE \<and>
   deltalog (inner_dispatch (store demo_client)
              (ActionCreators makeMove ''draw'' [JNum 1] (Val ''0'') Undefined)
              (current (store demo_client))) = Val [JArr [JStr ''draw'', JStr ''0'']] \<and>
   fst (dispatch (ActionCreators makeMove ''draw'' [JNum 1] (Val ''0'') Undefined) demo_client)
     = Inr () \<and>
   log (snd (dispatch (ActionCreators makeMove ''draw'' [JNum 1] (Val ''0'') Undefined)
               demo_client)) = [JStr ''setup'', JArr [JStr ''draw'', JStr ''0'']]"
  using move_or_event_appends_deltalog
          [of "ActionCreators makeMove ''draw'' [JNum 1] (Val ''0'') Undefined" demo_client
              "[JArr [JStr ''draw'', JStr ''0'']]"]
  by (simp add: demo_defs ActionCreators_def)

text \<open>
  C2. Dispatching a sync action that carries the log \<open>L\<close> sets the mirror to \<open>L\<close>, whatever
  the mirror held before; a sync action with no \<open>log\<close> field sets it to the empty sequence.
\<close>

theorem sync_replaces_log:
  assumes "action_type a = SYNC" and "action_log a = Val L"
    and "action_type b = SYNC" and "action_log b = Undefined"
  shows "fst (dispatch a c) = Inr () \<and> log (snd (dispatch a c)) = L \<and>
         fst (dispatch b c) = Inr () \<and> log (snd (dispatch b c)) = []"
  using assms by (simp add: dispatch_def LogMiddleware_sync)

theorem sync_replaces_log_witness:
  "log demo_remote_client = [JStr ''setup''] \<and>
   log (snd (dispatch ((control_action SYNC)\<lparr>action_log := Val [JNum 1, JNum 2, JNum 3]\<rparr>)
               demo_remote_client)) = [JNum 1, JNum 2, JNum 3] \<and>
   log (snd (dispatch (control_action SYNC) demo_remote_client)) = []"
  using sync_replaces_log
          [of "(control_action SYNC)\<lparr>action_log := Val [JNum 1, JNum 2, JNum 3]\<rparr>"
              "[JNum 1, JNum 2, JNum 3]" "control_action SYNC" demo_remote_client]
  by (simp add: demo_defs control_action_def)

text \<open>
  C3. Along any sequence of dispatches with no reset and no sync action the mirror only
  grows: what it held before is a prefix of what it holds after, also across a dispatch
  that throws. A reset action empties it whatever it held, a sync action replaces it by the
  log the action carries, an update action appends the \<open>deltalog\<close> it carries (nothing when
  it carries none) after the prior entries, and an action of any kind other than
  make-move, game-event, reset, update and sync leaves it as it was.
\<close>

theorem log_mirror_invariant:
  assumes "\<forall>a\<in>set as. action_type a \<noteq> RESET \<and> action_type a \<noteq> SYNC"
    and "action_type r = RESET"
    and "action_type s = SYNC"
    and "action_type u = UPDATE"
    and "action_type x \<notin> {MAKE_MOVE, GAME_EVENT, RESET, UPDATE, SYNC}"
  shows "prefix (log c) (log (dispatch_all as c)) \<and>
         log (snd (dispatch r c)) = [] \<and>
         log (snd (dispatch s c)) = or_empty (action_log s) \<and>
         log (snd (dispatch u c)) = log c @ or_empty (action_deltalog u) \<and>
         log (snd (dispatch x c)) = log c"
proof -
  have "prefix (log c) (log (dispatch_all as c))"
    using assms(1) by (rule dispatch_all_keeps_prefix)
  moreover have "log (snd (dispatch r c)) = []"
    using assms(2) by (simp add: dispatch_def LogMiddleware_reset)
  moreover have "log (snd (dispatch s c)) = or_empty (action_log s)"
    using assms(3) by (simp add: dispatch_def LogMiddleware_sync)
  moreover have "log (snd (dispatch u c)) = log c @ or_empty (action_deltalog u)"
    using assms(4) by (simp add: dispatch_def LogMiddleware_update)
  moreover have "log (snd (dispatch x c)) = log c"
    using assms(5) by (simp add: dispatch_def LogMiddleware_other)
  ultimately show ?thesis by simp
qed

theorem log_mirror_invariant_witness:
  "fst (dispatch (control_action GAME_EVENT) demo_client) = Inl TypeError \<and>
   log demo_client = [JStr ''setup''] \<and>
   log (dispatch_all
          [control_action GAME_EVENT,
           ActionCreators makeMove ''draw'' [] (Val ''0'') Undefined,
           (control_action UPDATE)\<lparr>action_deltalog := Val [JNum 7]\<rparr>,
           control_action UNDO,
           ActionCreators gameEvent ''endTurn'' [] Null Undefined]
          demo_client) =
     [JStr ''setup'', JArr [JStr ''draw'', JStr ''0''], JNum 7, JArr [JStr ''endTurn'', JNull]] \<and>
   log (snd (dispatch (control_action RESET) demo_client)) = [] \<and>
   log (snd (dispatch ((control_action SYNC)\<lparr>action_log := Val [JNum 1]\<rparr>) demo_client)) = [JNum 1] \<and>
   log (snd (dispatch (control_action UPDATE) demo_client)) = [JStr ''setup''] \<and>
   log (snd (dispatch (control_action (OTHER ''@@redux/INIT'')) demo_client)) = [JStr ''setup'']"
  using log_mirror_invariant
          [of "[control_action GAME_EVENT,
                ActionCreators makeMove ''draw'' [] (Val ''0'') Undefined,
                (control_action UPDATE)\<lparr>action_deltalog := Val [JNum 7]\<rparr>,
                control_action UNDO,
                ActionCreators gameEvent ''endTurn'' [] Null Undefined]"
              "control_action RESET"
              "(control_action SYNC)\<lparr>action_log := Val [JNum 1]\<rparr>"
              "control_action UPDATE"
              "control_action (OTHER ''@@redux/INIT'')"
              demo_client]
  by (simp add: demo_defs control_action_def ActionCreators_def dispatch_def
        LogMiddleware_def Let_def store_getState_def)

text \<open>
  C10. The make-move and game-event branch spreads \<open>state.deltalog\<close> with no default: when
  the state after \<open>next(action)\<close> has no \<open>deltalog\<close> the dispatch throws and the mirror is
  not assigned. The update and sync branches take the empty sequence when the field of
  the action is absent, and return.
\<close>

theorem move_or_event_without_deltalog_throws:
  assumes "action_type a = MAKE_MOVE \<or> action_type a = GAME_EVENT"
    and "deltalog (inner_dispatch (store c) a (current (store c))) = Undefined"
    and "action_type u = UPDATE" and "action_deltalog u = Undefined"
    and "action_type s = SYNC" and "action_log s = Undefined"
  shows "fst (dispatch a c) = Inl TypeError \<and> log (snd (dispatch a c)) = log c \<and>
         fst (dispatch u c) = Inr () \<and> log (snd (dispatch u c)) = log c \<and>
         fst (dispatch s c) = Inr () \<and> log (snd (dispatch s c)) = []"
proof -
  have "fst (dispatch a c) = Inl TypeError \<and> log (snd (dispatch a c)) = log c"
    using assms(1,2) by (simp add: dispatch_def LogMiddleware_move_event Let_def)
  moreover have "fst (dispatch u c) = Inr () \<and> log (snd (dispatch u c)) = log c"
    using assms(3,4) by (simp add: dispatch_def LogMiddleware_update)
  moreover have "fst (dispatch s c) = Inr () \<and> log (snd (dispatch s c)) = []"
    using assms(5,6) by (simp add: dispatch_def LogMiddleware_sync)
  ultimately show ?thesis by simp
qed

theorem move_or_event_without_deltalog_throws_witness:
  "action_type (control_action GAME_EVENT) = GAME_EVENT \<and>
   deltalog (inner_dispatch (store demo_client) (control_action GAME_EVENT)
               (current (store demo_client))) = Undefined \<and>
   fst (dispatch (control_action GAME_EVENT) demo_client) = Inl TypeError \<and>
   log (snd (dispatch (control_action GAME_EVENT) demo_client)) = [JStr ''setup''] \<and>
   fst (dispatch (control_action UPDATE) demo_client) = Inr () \<and>
   log (snd (dispatch (control_action UPDATE) demo_client)) = [JStr ''setup''] \<and>
   fst (dispatch (control_action SYNC) demo_client) = Inr () \<and>
   log (snd (dispatch (control_action SYNC) demo_client)) = []"
  using move_or_event_without_deltalog_throws
          [of "control_action GAME_EVENT" demo_client "control_action UPDATE"
              "control_action SYNC"]
  by (simp add: demo_defs control_action_def)

text \<open>
  C4. As stated the claim fails: a single-player client with no player id is not active
  once \<open>ctx.gameover\<close> is defined, since \<open>getState\<close> clears \<open>isActive\<close> for a finished game
  last. Amended: for a single-player client whose player id is \<open>undefined\<close> or \<open>null\<close>,
  \<open>isActive\<close> is true exactly when \<open>ctx.gameover\<close> is \<open>undefined\<close>, whatever
  \<open>ctx.currentPlayer\<close> is and whatever \<open>canPlayerMakeMove\<close> answers.
\<close>

theorem single_player_unset_active_until_gameover:
  assumes "\<not> truthy (multiplayer c)"
    and "playerID c = Undefined \<or> playerID c = Null"
  shows "isActive (getState c) = (gameover (ctx (store_getState (store c))) = JUndefined)"
  using assms by (auto simp: isActive_getState Let_def)

theorem single_player_unset_active_until_gameover_witness:
  "\<not> truthy (multiplayer demo_client) \<and> playerID demo_client = Undefined \<and>
   gameover (ctx (store_getState (store demo_client))) = JUndefined \<and>
   isActive (getState demo_client)"
  using single_player_unset_active_until_gameover [of demo_client]
  by (simp add: demo_defs store_getState_def)

theorem single_player_unset_inactive_counterexample:
  "\<not> truthy (multiplayer finished_client) \<and> playerID finished_client = Undefined \<and>
   \<not> isActive (getState finished_client)"
  by (simp add: demo_defs getState_def store_getState_def Let_def)

text \<open>
  C5. For a multiplayer client, and for a single-player client with a concrete player id,
  \<open>isActive\<close> is \<open>canPlayerMakeMove(state.G, state.ctx, this.playerID)\<close> on the store's
  current state while \<open>ctx.gameover\<close> is \<open>undefined\<close>, and false once it is defined.
\<close>

theorem isActive_is_canPlayerMakeMove_unless_gameover:
  assumes "truthy (multiplayer m)"
    and "\<not> truthy (multiplayer s)" and "playerID s \<noteq> Null" and "playerID s \<noteq> Undefined"
  shows "isActive (getState m) =
           (if gameover (ctx (store_getState (store m))) \<noteq> JUndefined then False
            else canPlayerMakeMove (flow (game m)) (G (store_getState (store m)))
                   (ctx (store_getState (store m))) (playerID m)) \<and>
         isActive (getState s) =
           (if gameover (ctx (store_getState (store s))) \<noteq> JUndefined then False
            else canPlayerMakeMove (flow (game s)) (G (store_getState (store s)))
                   (ctx (store_getState (store s))) (playerID s))"
  using assms by (auto simp: isActive_getState Let_def)

theorem isActive_is_canPlayerMakeMove_unless_gameover_witness:
  "truthy (multiplayer demo_remote_client) \<and>
   \<not> isActive (getState demo_remote_client) \<and>
   \<not> truthy (multiplayer (updatePlayerID (Val ''0'') demo_client)) \<and>
   playerID (updatePlayerID (Val ''0'') demo_client) = Val ''0'' \<and>
   isActive (getState (updatePlayerID (Val ''0'') demo_client))"
  using isActive_is_canPlayerMakeMove_unless_gameover
          [of demo_remote_client "updatePlayerID (Val ''0'') demo_client"]
  by (simp add: demo_defs store_getState_def updatePlayerID_def client_createDispatchers_def)

text \<open>
  C7. Whatever the configuration and the store's state, \<open>getState()\<close> returns as \<open>G\<close> the
  result of \<open>game.playerView(state.G, state.ctx, this.playerID)\<close>, and as \<open>log\<close> the client's
  log mirror.
\<close>

theorem getState_G_and_log:
  "view_G (getState c) =
     playerView (game c) (G (store_getState (store c))) (ctx (store_getState (store c)))
       (playerID c) \<and>
   view_log (getState c) = log c"
  by (cases "multiplayerClient c") (simp_all add: getState_def Let_def)

theorem getState_G_and_log_witness:
  "G (store_getState (store demo_client)) = JObj [(''deck'', JNum 5)] \<and>
   view_G (getState demo_client) = JNull \<and>
   state_log (store_getState (store demo_client)) = Undefined \<and>
   deltalog (store_getState (store demo_client)) = Undefined \<and>
   view_log (getState demo_client) = [JStr ''setup'']"
  using getState_G_and_log [of demo_client]
  by (simp add: demo_defs store_getState_def)



text \<open>
  C6. The closure that \<open>createDispatchers\<close> stores under a name of its list, when built
  without multiplayer and with a player id of \<open>null\<close> or \<open>undefined\<close>, dispatches each time
  it is called the action that carries the \<open>ctx.currentPlayer\<close> of the store's state at
  that call. Built in any other way, it dispatches the action that carries the player id
  it was built with.
\<close>

theorem dispatcher_player_identity:
  assumes "nm \<in> set names"
    and "\<not> truthy m1" and "p1 = Null \<or> p1 = Undefined"
    and "truthy m2 \<or> (p2 \<noteq> Null \<and> p2 \<noteq> Undefined)"
  shows "createDispatchers kind names p1 cred m1 nm =
           Some \<lparr>dispatcher_storeActionType = kind, dispatcher_name = nm,
                 dispatcher_playerID = p1, dispatcher_credentials = cred,
                 dispatcher_multiplayer = m1\<rparr> \<and>
         call_dispatcher
           \<lparr>dispatcher_storeActionType = kind, dispatcher_name = nm,
            dispatcher_playerID = p1, dispatcher_credentials = cred,
            dispatcher_multiplayer = m1\<rparr> as c =
           dispatch (ActionCreators kind nm as
                       (currentPlayer (ctx (store_getState (store c)))) cred) c \<and>
         createDispatchers kind names p2 cred m2 nm =
           Some \<lparr>dispatcher_storeActionType = kind, dispatcher_name = nm,
                 dispatcher_playerID = p2, dispatcher_credentials = cred,
                 dispatcher_multiplayer = m2\<rparr> \<and>
         call_dispatcher
           \<lparr>dispatcher_storeActionType = kind, dispatcher_name = nm,
            dispatcher_playerID = p2, dispatcher_credentials = cred,
            dispatcher_multiplayer = m2\<rparr> as c =
           dispatch (ActionCreators kind nm as p2 cred) c"
  using assms by (auto simp: call_dispatcher_def createDispatchers_lookup)

theorem dispatcher_player_identity_witness:
  "moves demo_client ''draw'' =
     Some \<lparr>dispatcher_storeActionType = makeMove, dispatcher_name = ''draw'',
           dispatcher_playerID = Undefined, dispatcher_credentials = Undefined,
           dispatcher_multiplayer = Undefined\<rparr> \<and>
   call_dispatcher
     \<lparr>dispatcher_storeActionType = makeMove, dispatcher_name = ''draw'',
      dispatcher_playerID = Undefined, dispatcher_credentials = Undefined,
      dispatcher_multiplayer = Undefined\<rparr> [JNum 1] demo_client =
     dispatch (ActionCreators makeMove ''draw'' [JNum 1] (Val ''0'') Undefined) demo_client \<and>
   call_dispatcher
     \<lparr>dispatcher_storeActionType = makeMove, dispatcher_name = ''draw'',
      dispatcher_playerID = Undefined, dispatcher_credentials = Undefined,
      dispatcher_multiplayer = Undefined\<rparr> [JNum 1] next_turn_client =
     dispatch (ActionCreators makeMove ''draw'' [JNum 1] (Val ''1'') Undefined)
       next_turn_client \<and>
   createDispatchers gameEvent [''endTurn''] Null Undefined (Val (MBool True)) ''endTurn'' =
     Some \<lparr>dispatcher_storeActionType = gameEvent, dispatcher_name = ''endTurn'',
           dispatcher_playerID = Null, dispatcher_credentials = Undefined,
           dispatcher_multiplayer = Val (MBool True)\<rparr> \<and>
   call_dispatcher
     \<lparr>dispatcher_storeActionType = gameEvent, dispatcher_name = ''endTurn'',
      dispatcher_playerID = Null, dispatcher_credentials = Undefined,
      dispatcher_multiplayer = Val (MBool True)\<rparr> [] demo_client =
     dispatch (ActionCreators gameEvent ''endTurn'' [] Null Undefined) demo_client"
proof -
  have single: "\<not> truthy Undefined"
    and unset: "(Undefined :: string js) = Null \<or> (Undefined :: string js) = Undefined"
    and multi: "truthy (Val (MBool True)) \<or>
                ((Null :: string js) \<noteq> Null \<and> (Null :: string js) \<noteq> Undefined)"
    by simp_all
  have draw: "''draw'' \<in> set [''draw'']" and endTurn: "''endTurn'' \<in> set [''endTurn'']"
    by simp_all
  note first = dispatcher_player_identity
    [OF draw single unset multi, of makeMove Undefined "[JNum 1]" demo_client]
  note second = dispatcher_player_identity
    [OF draw single unset multi, of makeMove Undefined "[JNum 1]" next_turn_client]
  note third = dispatcher_player_identity
    [OF endTurn single unset multi, of gameEvent Undefined "[]" demo_client]
  have built: "moves demo_client = createDispatchers makeMove [''draw''] Undefined Undefined Undefined"
    by (simp add: demo_defs createMoveDispatchers_def)
  have "currentPlayer (ctx (store_getState (store demo_client))) = Val ''0''"
    by (simp add: demo_defs store_getState_def)
  moreover have "currentPlayer (ctx (store_getState (store next_turn_client))) = Val ''1''"
    by (simp add: demo_defs store_getState_def)
  ultimately show ?thesis
    using first second third by (simp add: built)
qed

text \<open>
  C9. On every client, with or without a transport, \<open>updatePlayerID\<close>, \<open>updateGameID\<close> and
  \<open>updateCredentials\<close> set their field, leave the other fields but \<open>moves\<close> and \<open>events\<close> as
  they are, and rebuild the move and the event dispatchers from the fields as they then
  are: a name of the game's list holds a closure with the new player id or the new
  credentials, any other name holds none. Where the client has a transport,
  \<open>updatePlayerID\<close> and \<open>updateGameID\<close> call the transport's method of the same name with
  the new value; \<open>updateCredentials\<close> leaves the transport as it is.
\<close>

theorem mutators_rebuild_dispatchers:
  "updatePlayerID pid c =
     c\<lparr>playerID := pid,
       moves := createMoveDispatchers (moveNames (game c)) pid (credentials c) (multiplayer c),
       events := createEventDispatchers (eventNames (flow (game c))) pid (credentials c)
                   (multiplayer c),
       multiplayerClient :=
         (case multiplayerClient c of
            None \<Rightarrow> None
          | Some t \<Rightarrow> Some (t\<lparr>transport_calls := transport_calls t @ [UpdatePlayerID pid]\<rparr>))\<rparr> \<and>
   moves (updatePlayerID pid c) nm =
     (if nm \<in> set (moveNames (game c))
      then Some \<lparr>dispatcher_storeActionType = makeMove, dispatcher_name = nm,
                 dispatcher_playerID = pid, dispatcher_credentials = credentials c,
                 dispatcher_multiplayer = multiplayer c\<rparr>
      else None) \<and>
   events (updatePlayerID pid c) nm =
     (if nm \<in> set (eventNames (flow (game c)))
      then Some \<lparr>dispatcher_storeActionType = gameEvent, dispatcher_name = nm,
                 dispatcher_playerID = pid, dispatcher_credentials = credentials c,
                 dispatcher_multiplayer = multiplayer c\<rparr>
      else None) \<and>
   updateGameID gid c =
     c\<lparr>gameID := gid,
       moves := createMoveDispatchers (moveNames (game c)) (playerID c) (credentials c)
                  (multiplayer c),
       events := createEventDispatchers (eventNames (flow (game c))) (playerID c)
                   (credentials c) (multiplayer c),
       multiplayerClient :=
         (case multiplayerClient c of
            None \<Rightarrow> None
          | Some t \<Rightarrow> Some (t\<lparr>transport_calls := transport_calls t @ [UpdateGameID gid]\<rparr>))\<rparr> \<and>
   moves (updateGameID gid c) nm =
     (if nm \<in> set (moveNames (game c))
      then Some \<lparr>dispatcher_storeActionType = makeMove, dispatcher_name = nm,
                 dispatcher_playerID = playerID c, dispatcher_credentials = credentials c,
                 dispatcher_multiplayer = multiplayer c\<rparr>
      else None) \<and>
   events (updateGameID gid c) nm =
     (if nm \<in> set (eventNames (flow (game c)))
      then Some \<lparr>dispatcher_storeActionType = gameEvent, dispatcher_name = nm,
                 dispatcher_playerID = playerID c, dispatcher_credentials = credentials c,
                 dispatcher_multiplayer = multiplayer c\<rparr>
      else None) \<and>
   updateCredentials cred c =
     c\<lparr>credentials := cred,
       moves := createMoveDispatchers (moveNames (game c)) (playerID c) cred (multiplayer c),
       events := createEventDispatchers (eventNames (flow (game c))) (playerID c) cred
                   (multiplayer c)\<rparr> \<and>
   moves (updateCredentials cred c) nm =
     (if nm \<in> set (moveNames (game c))
      then Some \<lparr>dispatcher_storeActionType = makeMove, dispatcher_name = nm,
                 dispatcher_playerID = playerID c, dispatcher_credentials = cred,
                 dispatcher_multiplayer = multiplayer c\<rparr>
      else None) \<and>
   events (updateCredentials cred c) nm =
     (if nm \<in> set (eventNames (flow (game c)))
      then Some \<lparr>dispatcher_storeActionType = gameEvent, dispatcher_name = nm,
                 dispatcher_playerID = playerID c, dispatcher_credentials = cred,
                 dispatcher_multiplayer = multiplayer c\<rparr>
      else None)"
proof -
  have p: "updatePlayerID pid c =
     c\<lparr>playerID := pid,
       moves := createMoveDispatchers (moveNames (game c)) pid (credentials c) (multiplayer c),
       events := createEventDispatchers (eventNames (flow (game c))) pid (credentials c)
                   (multiplayer c),
       multiplayerClient :=
         (case multiplayerClient c of
            None \<Rightarrow> None
          | Some t \<Rightarrow> Some (t\<lparr>transport_calls := transport_calls t @ [UpdatePlayerID pid]\<rparr>))\<rparr>"
    by (cases "multiplayerClient c")
       (simp_all add: updatePlayerID_def client_createDispatchers_def Let_def
          transport_updatePlayerID_def)
  have g: "updateGameID gid c =
     c\<lparr>gameID := gid,
       moves := createMoveDispatchers (moveNames (game c)) (playerID c) (credentials c)
                  (multiplayer c),
       events := createEventDispatchers (eventNames (flow (game c))) (playerID c)
                   (credentials c) (multiplayer c),
       multiplayerClient :=
         (case multiplayerClient c of
            None \<Rightarrow> None
          | Some t \<Rightarrow> Some (t\<lparr>transport_calls := transport_calls t @ [UpdateGameID gid]\<rparr>))\<rparr>"
    by (cases "multiplayerClient c")
       (simp_all add: updateGameID_def client_createDispatchers_def Let_def
          transport_updateGameID_def)
  have k: "updateCredentials cred c =
     c\<lparr>credentials := cred,
       moves := createMoveDispatchers (moveNames (game c)) (playerID c) cred (multiplayer c),
       events := createEventDispatchers (eventNames (flow (game c))) (playerID c) cred
                   (multiplayer c)\<rparr>"
    by (simp add: updateCredentials_def client_createDispatchers_def)
  have "moves (updatePlayerID pid c) nm =
     (if nm \<in> set (moveNames (game c))
      then Some \<lparr>dispatcher_storeActionType = makeMove, dispatcher_name = nm,
                 dispatcher_playerID = pid, dispatcher_credentials = credentials c,
                 dispatcher_multiplayer = multiplayer c\<rparr>
      else None)"
    by (simp add: updatePlayerID_fields createMoveDispatchers_def createDispatchers_lookup)
  moreover have "events (updatePlayerID pid c) nm =
     (if nm \<in> set (eventNames (flow (game c)))
      then Some \<lparr>dispatcher_storeActionType = gameEvent, dispatcher_name = nm,
                 dispatcher_playerID = pid, dispatcher_credentials = credentials c,
                 dispatcher_multiplayer = multiplayer c\<rparr>
      else None)"
    by (simp add: updatePlayerID_fields createEventDispatchers_def createDispatchers_lookup)
  moreover have "moves (updateGameID gid c) nm =
     (if nm \<in> set (moveNames (game c))
      then Some \<lparr>dispatcher_storeActionType = makeMove, dispatcher_name = nm,
                 dispatcher_playerID = playerID c, dispatcher_credentials = credentials c,
                 dispatcher_multiplayer = multiplayer c\<rparr>
      else None)"
    by (simp add: updateGameID_fields createMoveDispatchers_def createDispatchers_lookup)
  moreover have "events (updateGameID gid c) nm =
     (if nm \<in> set (eventNames (flow (game c)))
      then Some \<lparr>dispatcher_storeActionType = gameEvent, dispatcher_name = nm,
                 dispatcher_playerID = playerID c, dispatcher_credentials = credentials c,
                 dispatcher_multiplayer = multiplayer c\<rparr>
      else None)"
    by (simp add: updateGameID_fields createEventDispatchers_def createDispatchers_lookup)
  moreover have "moves (updateCredentials cred c) nm =
     (if nm \<in> set (moveNames (game c))
      then Some \<lparr>dispatcher_storeActionType = makeMove, dispatcher_name = nm,
                 dispatcher_playerID = playerID c, dispatcher_credentials = cred,
                 dispatcher_multiplayer = multiplayer c\<rparr>
      else None)"
    by (simp add: updateCredentials_fields createMoveDispatchers_def createDispatchers_lookup)
  moreover have "events (updateCredentials cred c) nm =
     (if nm \<in> set (eventNames (flow (game c)))
      then Some \<lparr>dispatcher_storeActionType = gameEvent, dispatcher_name = nm,
                 dispatcher_playerID = playerID c, dispatcher_credentials = cred,
                 dispatcher_multiplayer = multiplayer c\<rparr>
      else None)"
    by (simp add: updateCredentials_fields createEventDispatchers_def createDispatchers_lookup)
  ultimately show ?thesis
    using p g k by blast
qed

theorem mutators_rebuild_dispatchers_witness:
  "multiplayerClient demo_client = None \<and>
   playerID demo_client = Undefined \<and>
   playerID (updatePlayerID (Val ''0'') demo_client) = Val ''0'' \<and>
   moves (updatePlayerID (Val ''0'') demo_client) ''draw'' =
     Some \<lparr>dispatcher_storeActionType = makeMove, dispatcher_name = ''draw'',
           dispatcher_playerID = Val ''0'', dispatcher_credentials = Undefined,
           dispatcher_multiplayer = Undefined\<rparr> \<and>
   moves (updatePlayerID (Val ''0'') demo_client) ''endTurn'' = None \<and>
   events (updatePlayerID (Val ''0'') demo_client) ''endTurn'' =
     Some \<lparr>dispatcher_storeActionType = gameEvent, dispatcher_name = ''endTurn'',
           dispatcher_playerID = Val ''0'', dispatcher_credentials = Undefined,
           dispatcher_multiplayer = Undefined\<rparr> \<and>
   multiplayerClient (updatePlayerID (Val ''0'') demo_client) = None \<and>
   log (updatePlayerID (Val ''0'') demo_client) = [JStr ''setup''] \<and>
   gameID (updateGameID (Val ''g7'') demo_client) = Val ''g7'' \<and>
   multiplayerClient (updateGameID (Val ''g7'') demo_client) = None \<and>
   credentials (updateCredentials (Val ''secret'') demo_client) = Val ''secret'' \<and>
   events (updateCredentials (Val ''secret'') demo_client) ''endTurn'' =
     Some \<lparr>dispatcher_storeActionType = gameEvent, dispatcher_name = ''endTurn'',
           dispatcher_playerID = Undefined, dispatcher_credentials = Val ''secret'',
           dispatcher_multiplayer = Undefined\<rparr> \<and>
   moves demo_remote_client ''draw'' =
     Some \<lparr>dispatcher_storeActionType = makeMove, dispatcher_name = ''draw'',
           dispatcher_playerID = Val ''1'', dispatcher_credentials = Undefined,
           dispatcher_multiplayer = Val (MBool True)\<rparr> \<and>
   moves (updatePlayerID (Val ''0'') demo_remote_client) ''draw'' =
     Some \<lparr>dispatcher_storeActionType = makeMove, dispatcher_name = ''draw'',
           dispatcher_playerID = Val ''0'', dispatcher_credentials = Undefined,
           dispatcher_multiplayer = Val (MBool True)\<rparr> \<and>
   multiplayerClient (updatePlayerID (Val ''0'') demo_remote_client) =
     Some (demo_transport\<lparr>transport_calls := [UpdatePlayerID (Val ''0'')]\<rparr>) \<and>
   multiplayerClient (updateGameID (Val ''g7'') demo_remote_client) =
     Some (demo_transport\<lparr>transport_calls := [UpdateGameID (Val ''g7'')]\<rparr>) \<and>
   multiplayerClient (updateCredentials (Val ''secret'') demo_remote_client) =
     Some demo_transport"
proof -
  note local_draw = mutators_rebuild_dispatchers
    [where c = demo_client and pid = "Val ''0''" and gid = "Val ''g7''"
       and cred = "Val ''secret''" and nm = "''draw''"]
  note local_endTurn = mutators_rebuild_dispatchers
    [where c = demo_client and pid = "Val ''0''" and gid = "Val ''g7''"
       and cred = "Val ''secret''" and nm = "''endTurn''"]
  note remote_draw = mutators_rebuild_dispatchers
    [where c = demo_remote_client and pid = "Val ''0''" and gid = "Val ''g7''"
       and cred = "Val ''secret''" and nm = "''draw''"]
  have facts:
    "multiplayerClient demo_client = None" "playerID demo_client = Undefined"
    "credentials demo_client = Undefined" "multiplayer demo_client = Undefined"
    "log demo_client = [JStr ''setup'']"
    "moveNames (game demo_client) = [''draw'']"
    "eventNames (flow (game demo_client)) = [''endTurn'']"
    "multiplayerClient demo_remote_client = Some demo_transport"
    "playerID demo_remote_client = Val ''1''"
    "credentials demo_remote_client = Undefined"
    "multiplayer demo_remote_client = Val (MBool True)"
    "moveNames (game demo_remote_client) = [''draw'']"
    "transport_calls demo_transport = []"
    by (simp_all add: demo_defs)
  have before: "moves demo_remote_client ''draw'' =
     Some \<lparr>dispatcher_storeActionType = makeMove, dispatcher_name = ''draw'',
           dispatcher_playerID = Val ''1'', dispatcher_credentials = Undefined,
           dispatcher_multiplayer = Val (MBool True)\<rparr>"
    by (simp add: demo_defs createMoveDispatchers_def createDispatchers_def)
  from local_draw have local_whole:
    "updatePlayerID (Val ''0'') demo_client =
       demo_client\<lparr>playerID := Val ''0'',
         moves := createMoveDispatchers (moveNames (game demo_client)) (Val ''0'')
                    (credentials demo_client) (multiplayer demo_client),
         events := createEventDispatchers (eventNames (flow (game demo_client))) (Val ''0'')
                     (credentials demo_client) (multiplayer demo_client),
         multiplayerClient :=
           (case multiplayerClient demo_client of
              None \<Rightarrow> None
            | Some t \<Rightarrow> Some (t\<lparr>transport_calls := transport_calls t @ [UpdatePlayerID (Val ''0'')]\<rparr>))\<rparr>"
    "updateGameID (Val ''g7'') demo_client =
       demo_client\<lparr>gameID := Val ''g7'',
         moves := createMoveDispatchers (moveNames (game demo_client)) (playerID demo_client)
                    (credentials demo_client) (multiplayer demo_client),
         events := createEventDispatchers (eventNames (flow (game demo_client)))
                     (playerID demo_client) (credentials demo_client) (multiplayer demo_client),
         multiplayerClient :=
           (case multiplayerClient demo_client of
              None \<Rightarrow> None
            | Some t \<Rightarrow> Some (t\<lparr>transport_calls := transport_calls t @ [UpdateGameID (Val ''g7'')]\<rparr>))\<rparr>"
    "updateCredentials (Val ''secret'') demo_client =
       demo_client\<lparr>credentials := Val ''secret'',
         moves := createMoveDispatchers (moveNames (game demo_client)) (playerID demo_client)
                    (Val ''secret'') (multiplayer demo_client),
         events := createEventDispatchers (eventNames (flow (game demo_client)))
                     (playerID demo_client) (Val ''secret'') (multiplayer demo_client)\<rparr>"
    by blast+
  have local_fields:
    "playerID (updatePlayerID (Val ''0'') demo_client) = Val ''0''"
    "multiplayerClient (updatePlayerID (Val ''0'') demo_client) = None"
    "log (updatePlayerID (Val ''0'') demo_client) = [JStr ''setup'']"
    "gameID (updateGameID (Val ''g7'') demo_client) = Val ''g7''"
    "multiplayerClient (updateGameID (Val ''g7'') demo_client) = None"
    "credentials (updateCredentials (Val ''secret'') demo_client) = Val ''secret''"
    by (simp_all add: local_whole facts)
  from local_draw have local_moves:
    "moves (updatePlayerID (Val ''0'') demo_client) ''draw'' =
       (if ''draw'' \<in> set (moveNames (game demo_client))
        then Some \<lparr>dispatcher_storeActionType = makeMove, dispatcher_name = ''draw'',
                   dispatcher_playerID = Val ''0'',
                   dispatcher_credentials = credentials demo_client,
                   dispatcher_multiplayer = multiplayer demo_client\<rparr>
        else None)"
    by blast
  from local_endTurn have local_events:
    "moves (updatePlayerID (Val ''0'') demo_client) ''endTurn'' =
       (if ''endTurn'' \<in> set (moveNames (game demo_client))
        then Some \<lparr>dispatcher_storeActionType = makeMove, dispatcher_name = ''endTurn'',
                   dispatcher_playerID = Val ''0'',
                   dispatcher_credentials = credentials demo_client,
                   dispatcher_multiplayer = multiplayer demo_client\<rparr>
        else None)"
    "events (updatePlayerID (Val ''0'') demo_client) ''endTurn'' =
       (if ''endTurn'' \<in> set (eventNames (flow (game demo_client)))
        then Some \<lparr>dispatcher_storeActionType = gameEvent, dispatcher_name = ''endTurn'',
                   dispatcher_playerID = Val ''0'',
                   dispatcher_credentials = credentials demo_client,
                   dispatcher_multiplayer = multiplayer demo_client\<rparr>
        else None)"
    "events (updateCredentials (Val ''secret'') demo_client) ''endTurn'' =
       (if ''endTurn'' \<in> set (eventNames (flow (game demo_client)))
        then Some \<lparr>dispatcher_storeActionType = gameEvent, dispatcher_name = ''endTurn'',
                   dispatcher_playerID = playerID demo_client,
                   dispatcher_credentials = Val ''secret'',
                   dispatcher_multiplayer = multiplayer demo_client\<rparr>
        else None)"
    by blast+
  from remote_draw have remote_whole:
    "updatePlayerID (Val ''0'') demo_remote_client =
       demo_remote_client\<lparr>playerID := Val ''0'',
         moves := createMoveDispatchers (moveNames (game demo_remote_client)) (Val ''0'')
                    (credentials demo_remote_client) (multiplayer demo_remote_client),
         events := createEventDispatchers (eventNames (flow (game demo_remote_client)))
                     (Val ''0'') (credentials demo_remote_client)
                     (multiplayer demo_remote_client),
         multiplayerClient :=
           (case multiplayerClient demo_remote_client of
              None \<Rightarrow> None
            | Some t \<Rightarrow> Some (t\<lparr>transport_calls := transport_calls t @ [UpdatePlayerID (Val ''0'')]\<rparr>))\<rparr>"
    "updateGameID (Val ''g7'') demo_remote_client =
       demo_remote_client\<lparr>gameID := Val ''g7'',
         moves := createMoveDispatchers (moveNames (game demo_remote_client))
                    (playerID demo_remote_client) (credentials demo_remote_client)
                    (multiplayer demo_remote_client),
         events := createEventDispatchers (eventNames (flow (game demo_remote_client)))
                     (playerID demo_remote_client) (credentials demo_remote_client)
                     (multiplayer demo_remote_client),
         multiplayerClient :=
           (case multiplayerClient demo_remote_client of
              None \<Rightarrow> None
            | Some t \<Rightarrow> Some (t\<lparr>transport_calls := transport_calls t @ [UpdateGameID (Val ''g7'')]\<rparr>))\<rparr>"
    "updateCredentials (Val ''secret'') demo_remote_client =
       demo_remote_client\<lparr>credentials := Val ''secret'',
         moves := createMoveDispatchers (moveNames (game demo_remote_client))
                    (playerID demo_remote_client) (Val ''secret'')
                    (multiplayer demo_remote_client),
         events := createEventDispatchers (eventNames (flow (game demo_remote_client)))
                     (playerID demo_remote_client) (Val ''secret'')
                     (multiplayer demo_remote_client)\<rparr>"
    by blast+
  have remote_fields:
    "multiplayerClient (updatePlayerID (Val ''0'') demo_remote_client) =
       Some (demo_transport\<lparr>transport_calls := [UpdatePlayerID (Val ''0'')]\<rparr>)"
    "multiplayerClient (updateGameID (Val ''g7'') demo_remote_client) =
       Some (demo_transport\<lparr>transport_calls := [UpdateGameID (Val ''g7'')]\<rparr>)"
    "multiplayerClient (updateCredentials (Val ''secret'') demo_remote_client) =
       Some demo_transport"
    by (simp_all add: remote_whole facts)
  from remote_draw have remote_moves:
    "moves (updatePlayerID (Val ''0'') demo_remote_client) ''draw'' =
       (if ''draw'' \<in> set (moveNames (game demo_remote_client))
        then Some \<lparr>dispatcher_storeActionType = makeMove, dispatcher_name = ''draw'',
                   dispatcher_playerID = Val ''0'',
                   dispatcher_credentials = credentials demo_remote_client,
                   dispatcher_multiplayer = multiplayer demo_remote_client\<rparr>
        else None)"
    by blast
  show ?thesis
    using facts before local_fields local_moves local_events remote_fields remote_moves
    by simp
qed

end
